theory Spec2Isabelle
  imports Complex_Main
begin

section \<open>Elements.pyECSS components: data model\<close>

text \<open>
  Python objects are mutable and compared by identity, so an object lives at an address
  of a store and a reference to it is that address.  The numpy arrays of the source hold
  floating-point numbers; here their entries are rationals, so every arithmetic
  operation is the exact one that the floating-point operation rounds.
\<close>

datatype error = AttributeError | IndexError | ZeroDivisionError | TypeError

type_synonym addr = nat

datatype ref = PyNone | Ref addr

datatype py_id = IntId int | StrId string

type_synonym matrix = "rat list list"

text \<open>\<open>util.identity()\<close>: the 4x4 identity matrix (\<open>np.eye(4)\<close>).\<close>

definition identity :: matrix where
  "identity = [[1, 0, 0, 0], [0, 1, 0, 0], [0, 0, 1, 0], [0, 0, 0, 1]]"

text \<open>The fields set by \<open>Component.__init__\<close>; \<open>ident\<close> is the source's \<open>_id\<close>.\<close>

record component =
  name :: string
  type :: string
  ident :: py_id
  parent :: ref
  children :: "ref list option"
  worldManager :: ref
  eventManager :: ref

record basic_transform = component +
  trs :: matrix
  l2world :: matrix
  l2cam :: matrix

record camera = component +
  projMat :: matrix
  root2cam :: matrix

record render_mesh = component +
  vertex_attributes :: "rat list list list"
  vertex_index :: "nat list list"

record component_decorator = component +
  component :: ref

record keyframe = component +
  array_MM :: "matrix list list"

record animation_components = component +
  alpha :: rat
  tempo :: rat
  time_add :: rat
  anition_start :: bool
  animKeys :: int
  inter :: string
  time :: "rat list"
  flag :: bool
  MM :: "matrix list"
  bones :: "ref list"

text \<open>
  An object of one of the concrete classes.  \<open>Component\<close> and \<open>ComponentDecorator\<close>
  are abstract (\<open>init\<close>, \<open>update\<close> and \<open>accept\<close> are abstract methods of an \<open>ABC\<close>), so
  no object has one of them as its class.
\<close>

datatype obj =
    OBasicTransform basic_transform
  | OCamera camera
  | ORenderMesh render_mesh
  | OBasicTransformDecorator component_decorator
  | OKeyframe keyframe
  | OAnimationComponents animation_components

type_synonym store = "obj list"

subsection \<open>Constructors\<close>

text \<open>
  \<open>Component.__init__(self, name, type, id)\<close>.  An argument left at \<open>None\<close> is
  \<open>None\<close> here; \<open>cls\<close> is what \<open>getClassName()\<close> returns and \<open>uuid\<close> is the integer
  that \<open>uuid.uuid1().int\<close> would give.  The last four assignments are the source's
  \<open>self._parent = self\<close>, \<open>self._children = None\<close>, \<open>self._worldManager = None\<close> and
  \<open>self._eventManager = None\<close>.
\<close>

definition Component_init ::
  "addr \<Rightarrow> string \<Rightarrow> int \<Rightarrow> string option \<Rightarrow> string option \<Rightarrow> py_id option \<Rightarrow> component"
where
  "Component_init self cls uuid nm ty i =
     \<lparr> name = (case nm of None \<Rightarrow> cls | Some n \<Rightarrow> n),
       type = (case ty of None \<Rightarrow> cls | Some t \<Rightarrow> t),
       ident = (case i of None \<Rightarrow> IntId uuid | Some j \<Rightarrow> j),
       parent = Ref self,
       children = None,
       worldManager = PyNone,
       eventManager = PyNone \<rparr>"

definition BasicTransform_init ::
  "addr \<Rightarrow> int \<Rightarrow> string option \<Rightarrow> string option \<Rightarrow> py_id option \<Rightarrow> matrix option
     \<Rightarrow> basic_transform"
where
  "BasicTransform_init self uuid nm ty i t =
     (let c = Component_init self ''BasicTransform'' uuid nm ty i;
          b = component.extend c
                (basic_transform.fields
                   (case t of None \<Rightarrow> identity | Some m \<Rightarrow> m) identity identity)
      in b\<lparr>parent := Ref self, children := Some []\<rparr>)"

text \<open>
  \<open>Camera.__init__\<close>; \<open>ortho\<close> is the matrix that \<open>util.ortho(left, right, bottom, top,
  near, far)\<close> returns (the function is not part of these sources).
\<close>

definition Camera_init ::
  "addr \<Rightarrow> int \<Rightarrow> matrix \<Rightarrow> matrix option \<Rightarrow> string option \<Rightarrow> string option \<Rightarrow> py_id option
     \<Rightarrow> camera"
where
  "Camera_init self uuid ortho projMatrix nm ty i =
     (let c = Component_init self ''Camera'' uuid nm ty i;
          b = component.extend c
                (camera.fields
                   (case projMatrix of Some m \<Rightarrow> m | None \<Rightarrow> ortho) identity)
      in b\<lparr>parent := Ref self\<rparr>)"

text \<open>
  \<open>RenderMesh.__init__\<close>: \<open>not vertex_attributes\<close> holds for \<open>None\<close> and for the empty
  list alike.
\<close>

definition RenderMesh_init ::
  "addr \<Rightarrow> int \<Rightarrow> string option \<Rightarrow> string option \<Rightarrow> py_id option
     \<Rightarrow> rat list list list option \<Rightarrow> nat list list option \<Rightarrow> render_mesh"
where
  "RenderMesh_init self uuid nm ty i va vi =
     (let c = Component_init self ''RenderMesh'' uuid nm ty i;
          c' = c\<lparr>parent := Ref self\<rparr>
      in component.extend c'
           (render_mesh.fields
              (case va of None \<Rightarrow> [] | Some [] \<Rightarrow> [] | Some v \<Rightarrow> v)
              (case vi of None \<Rightarrow> [] | Some [] \<Rightarrow> [] | Some v \<Rightarrow> v)))"

text \<open>
  \<open>ComponentDecorator.__init__(self, comp, name, type, id)\<close>, which
  \<open>BasicTransformDecorator\<close> inherits.
\<close>

definition BasicTransformDecorator_init ::
  "addr \<Rightarrow> int \<Rightarrow> ref \<Rightarrow> string option \<Rightarrow> string option \<Rightarrow> py_id option
     \<Rightarrow> component_decorator"
where
  "BasicTransformDecorator_init self uuid cmp nm ty i =
     component.extend (Component_init self ''BasicTransformDecorator'' uuid nm ty i)
       (component_decorator.fields cmp)"

definition Keyframe_init ::
  "addr \<Rightarrow> int \<Rightarrow> string option \<Rightarrow> string option \<Rightarrow> py_id option
     \<Rightarrow> matrix list list option \<Rightarrow> keyframe"
where
  "Keyframe_init self uuid nm ty i am =
     (let c = Component_init self ''Keyframe'' uuid nm ty i;
          c' = c\<lparr>parent := Ref self\<rparr>
      in component.extend c'
           (keyframe.fields (case am of None \<Rightarrow> [] | Some [] \<Rightarrow> [] | Some v \<Rightarrow> v)))"

text \<open>
  \<open>AnimationComponents.__init__\<close>.  The arguments after \<open>id\<close> are passed explicitly;
  the source's defaults are \<open>alpha=0, tempo=2, time_add=0, animation_start=True,
  anim_keys=2, time=[0, 100, 200], flag=True, inter='SLERP'\<close>.  The argument \<open>MM\<close> is
  not used: the field is set to the empty list.
\<close>

definition AnimationComponents_init ::
  "addr \<Rightarrow> int \<Rightarrow> string option \<Rightarrow> string option \<Rightarrow> py_id option \<Rightarrow> ref list option
     \<Rightarrow> matrix list option \<Rightarrow> rat \<Rightarrow> rat \<Rightarrow> rat \<Rightarrow> bool \<Rightarrow> int \<Rightarrow> rat list \<Rightarrow> bool \<Rightarrow> string
     \<Rightarrow> animation_components"
where
  "AnimationComponents_init self uuid nm ty i bs mm a tp ta animation_start anim_keys tm fl intr =
     (let c = Component_init self ''AnimationComponents'' uuid nm ty i;
          c' = c\<lparr>parent := Ref self\<rparr>
      in component.extend c'
           (animation_components.fields a tp ta animation_start anim_keys intr tm fl []
              (case bs of None \<Rightarrow> [] | Some [] \<Rightarrow> [] | Some v \<Rightarrow> v)))"

text \<open>
  Creating an object: the new object gets the next free address of the store, and its
  initialiser is run with that address as \<open>self\<close>.
\<close>

definition new :: "store \<Rightarrow> (addr \<Rightarrow> obj) \<Rightarrow> addr \<times> store" where
  "new h mk = (length h, h @ [mk (length h)])"

text \<open>The \<open>parent\<close> property of an object of any class.\<close>

fun parent_of :: "obj \<Rightarrow> ref" where
  "parent_of (OBasicTransform c) = parent c"
| "parent_of (OCamera c) = parent c"
| "parent_of (ORenderMesh c) = parent c"
| "parent_of (OBasicTransformDecorator c) = parent c"
| "parent_of (OKeyframe c) = parent c"
| "parent_of (OAnimationComponents c) = parent c"

text \<open>
  \<open>fresh_parent h mk\<close>: the object made by \<open>mk\<close> in store \<open>h\<close> is stored at the
  address returned, and its parent reference is that address.
\<close>

definition fresh_parent :: "store \<Rightarrow> (addr \<Rightarrow> obj) \<Rightarrow> bool" where
  "fresh_parent h mk =
     (case new h mk of (a, h') \<Rightarrow> a < length h' \<and> parent_of (h' ! a) = Ref a)"

subsection \<open>\<open>update\<close>\<close>

text \<open>
  \<open>BasicTransform.update(self, **kwargs)\<close>: the keyword arguments are a dictionary
  from names to values.
\<close>

definition BasicTransform_update :: "basic_transform \<Rightarrow> (string \<rightharpoonup> matrix) \<Rightarrow> basic_transform"
where
  "BasicTransform_update self kwargs =
     (let arg1 = ''l2world''; arg2 = ''trs''; arg3 = ''l2cam'';
          s1 = (case kwargs arg1 of Some v \<Rightarrow> self\<lparr>l2world := v\<rparr> | None \<Rightarrow> self);
          s2 = (case kwargs arg2 of Some v \<Rightarrow> s1\<lparr>trs := v\<rparr> | None \<Rightarrow> s1);
          s3 = (case kwargs arg3 of Some v \<Rightarrow> s2\<lparr>l2cam := v\<rparr> | None \<Rightarrow> s2)
      in s3)"

definition Camera_update :: "camera \<Rightarrow> (string \<rightharpoonup> matrix) \<Rightarrow> camera" where
  "Camera_update self kwargs =
     (let arg1 = ''root2cam''
      in case kwargs arg1 of Some v \<Rightarrow> self\<lparr>root2cam := v\<rparr> | None \<Rightarrow> self)"

subsection \<open>Systems and \<open>accept\<close>\<close>














subsection \<open>Vertex attributes of a \<open>RenderMesh\<close>\<close>

text \<open>
  The callers attach an array with \<open>mesh.vertex_attributes.append(array)\<close>
  (\<open>BezierCurve.render_curve\<close>, \<open>FunctionPlotting.render_2d_plot\<close>): the property
  returns the list and \<open>append\<close> extends it in place.
\<close>

definition vertex_attributes_append :: "render_mesh \<Rightarrow> rat list list \<Rightarrow> render_mesh" where
  "vertex_attributes_append mesh array =
     mesh\<lparr>vertex_attributes := vertex_attributes mesh @ [array]\<rparr>"

text \<open>All vertex-attribute arrays of the mesh have the same number of rows.\<close>

definition same_row_count :: "render_mesh \<Rightarrow> bool" where
  "same_row_count mesh =
     (case vertex_attributes mesh of
        [] \<Rightarrow> True
      | a # as \<Rightarrow> list_all (\<lambda>b. length b = length a) as)"

subsection \<open>Animation: \<open>Keyframe\<close> and \<open>AnimationComponents\<close>\<close>

text \<open>
  The quaternion functions come from \<open>Elements.pyECSS.GA.quaternion\<close>, which is not
  among these sources: they are parameters of the model, over any type \<open>'q\<close> of
  quaternions.
\<close>

record 'q quaternion_module =
  from_rotation_matrix :: "matrix \<Rightarrow> 'q"
  to_rotation_matrix :: "'q \<Rightarrow> matrix"
  quaternion_lerp :: "'q \<Rightarrow> 'q \<Rightarrow> rat \<Rightarrow> 'q"
  quaternion_slerp :: "'q \<Rightarrow> 'q \<Rightarrow> rat \<Rightarrow> 'q"

text \<open>Reading a list at an index raises \<open>IndexError\<close> beyond its end.\<close>

definition getitem :: "'a list \<Rightarrow> nat \<Rightarrow> error + 'a" where
  "getitem xs i = (if i < length xs then Inr (xs ! i) else Inl IndexError)"

definition bind :: "error + 'a \<Rightarrow> ('a \<Rightarrow> error + 'b) \<Rightarrow> error + 'b" where
  "bind r f = (case r of Inl e \<Rightarrow> Inl e | Inr x \<Rightarrow> f x)"

text \<open>
  The properties \<open>Keyframe.translate\<close> and \<open>Keyframe.rotate\<close>: for every matrix of
  every pose array, its slice \<open>[:3, 3]\<close> and its quaternion.  The pose matrices are 4x4.
\<close>

definition translation_of :: "matrix \<Rightarrow> rat list" where
  "translation_of m = map (\<lambda>row. row ! 3) (take 3 m)"

definition translate :: "keyframe \<Rightarrow> rat list list" where
  "translate self = concat (map (map translation_of) (array_MM self))"

definition rotate :: "'q quaternion_module \<Rightarrow> keyframe \<Rightarrow> 'q list" where
  "rotate quat self = concat (map (map (from_rotation_matrix quat)) (array_MM self))"

text \<open>\<open>AnimationComponents.lerp(a, b, t)\<close> on arrays: \<open>(1 - t) * a + t * b\<close>.\<close>

definition lerp :: "rat list \<Rightarrow> rat list \<Rightarrow> rat \<Rightarrow> rat list" where
  "lerp a b t = map2 (\<lambda>x y. (1 - t) * x + t * y) a b"

text \<open>The assignments \<open>m[:3, :3] = r\<close> and \<open>m[:3, 3] = v\<close> to a 4x4 matrix.\<close>

definition set_rotation :: "matrix \<Rightarrow> matrix \<Rightarrow> matrix" where
  "set_rotation m r =
     map (\<lambda>i. take 3 (r ! i) @ drop 3 (m ! i)) [0..<3] @ drop 3 m"

definition set_translation :: "matrix \<Rightarrow> rat list \<Rightarrow> matrix" where
  "set_translation m v =
     map (\<lambda>i. take 3 (m ! i) @ [v ! i] @ drop 4 (m ! i)) [0..<3] @ drop 3 m"

text \<open>
  The right-hand side of the first statement of \<open>animation_for_loop\<close>:
  \<open>(self.time_add - t0) / abs(t1 - t0)\<close>.  Python raises on a zero divisor.
\<close>

definition blend_factor :: "rat \<Rightarrow> rat \<Rightarrow> rat \<Rightarrow> error + rat" where
  "blend_factor ta t0 t1 =
     (if \<bar>t1 - t0\<bar> = 0 then Inl ZeroDivisionError else Inr ((ta - t0) / \<bar>t1 - t0\<bar>))"

text \<open>
  One round of the loop \<open>for i in range(len(k_1))\<close> of \<open>animation_for_loop\<close>: the
  rotation block and then the translation column of \<open>MM[i]\<close>.  Both branches of the
  source interpolate the translation with \<open>lerp\<close>.
\<close>

definition pose_step ::
  "'q quaternion_module \<Rightarrow> string \<Rightarrow> rat \<Rightarrow> keyframe \<Rightarrow> keyframe \<Rightarrow> nat \<Rightarrow> matrix list
     \<Rightarrow> error + matrix list"
where
  "pose_step quat intr a keyframe1 keyframe2 i mm =
     bind (getitem (rotate quat keyframe1) i) (\<lambda>r1.
     bind (getitem (rotate quat keyframe2) i) (\<lambda>r2.
     bind (getitem mm i) (\<lambda>m.
     bind (getitem (translate keyframe1) i) (\<lambda>tr1.
     bind (getitem (translate keyframe2) i) (\<lambda>tr2.
       let q = (if intr = ''LERP'' then quaternion_lerp quat r1 r2 a
                else quaternion_slerp quat r1 r2 a);
           m1 = set_rotation m (to_rotation_matrix quat q);
           m2 = set_translation m1 (lerp tr1 tr2 a)
       in Inr (mm[i := m2]))))))"

fun pose_loop ::
  "'q quaternion_module \<Rightarrow> string \<Rightarrow> rat \<Rightarrow> keyframe \<Rightarrow> keyframe \<Rightarrow> nat list \<Rightarrow> matrix list
     \<Rightarrow> error + matrix list"
where
  "pose_loop quat intr a keyframe1 keyframe2 [] mm = Inr mm"
| "pose_loop quat intr a keyframe1 keyframe2 (i # is) mm =
     bind (pose_step quat intr a keyframe1 keyframe2 i mm)
       (pose_loop quat intr a keyframe1 keyframe2 is)"

text \<open>
  \<open>animation_for_loop(self, k_1, k_2, t0, t1)\<close>.  The two \<open>Keyframe\<close> objects are
  local and only their \<open>array_MM\<close> is read: their address and identifier play no
  part and are fixed.
\<close>

definition local_keyframe :: "matrix list \<Rightarrow> keyframe" where
  "local_keyframe k = Keyframe_init 0 0 None None None (Some [k])"

definition animation_for_loop ::
  "'q quaternion_module \<Rightarrow> animation_components \<Rightarrow> matrix list \<Rightarrow> matrix list \<Rightarrow> rat \<Rightarrow> rat
     \<Rightarrow> error + animation_components"
where
  "animation_for_loop quat self k_1 k_2 t0 t1 =
     bind (blend_factor (time_add self) t0 t1) (\<lambda>a.
       let self1 = self\<lparr>alpha := a\<rparr>;
           keyframe1 = local_keyframe k_1;
           keyframe2 = local_keyframe k_2
       in bind (pose_loop quat (inter self1) (alpha self1) keyframe1 keyframe2
                  [0..<length k_1] (MM self1))
            (\<lambda>mm. Inr (self1\<lparr>MM := mm\<rparr>)))"

text \<open>
  The test of the first \<open>if\<close> of \<open>animation_loop\<close>,
  \<open>(time_add >= time[1] and key3 is None) or (time_add >= time[2])\<close>: Python reads
  \<open>time[2]\<close> only when the first disjunct is false.
\<close>

definition at_end :: "animation_components \<Rightarrow> matrix list option \<Rightarrow> error + bool" where
  "at_end self key3 =
     bind (getitem (time self) 1) (\<lambda>t1.
       if time_add self \<ge> t1 \<and> key3 = None then Inr True
       else bind (getitem (time self) 2) (\<lambda>t2. Inr (time_add self \<ge> t2)))"

definition set_flag :: "animation_components \<Rightarrow> matrix list option \<Rightarrow> error + animation_components"
where
  "set_flag self key3 =
     bind (at_end self key3) (\<lambda>e.
       if e then Inr (self\<lparr>flag := False\<rparr>)
       else bind (getitem (time self) 0) (\<lambda>t0.
              if time_add self \<le> t0 then Inr (self\<lparr>flag := True\<rparr>) else Inr self))"

text \<open>
  The second \<open>if\<close>/\<open>elif\<close> of \<open>animation_loop\<close> chooses the call of
  \<open>animation_for_loop\<close>: its arguments \<open>(k_1, k_2, t0, t1)\<close>, or \<open>None\<close> when neither
  test holds and nothing is called.
\<close>

definition select_segment ::
  "animation_components \<Rightarrow> matrix list \<Rightarrow> matrix list \<Rightarrow> matrix list option
     \<Rightarrow> error + (matrix list \<times> matrix list \<times> rat \<times> rat) option"
where
  "select_segment self key1 key2 key3 =
     bind (getitem (time self) 0) (\<lambda>t0.
     bind (if time_add self \<ge> t0
           then bind (getitem (time self) 1) (\<lambda>t1. Inr (time_add self \<le> t1))
           else Inr False) (\<lambda>first.
       if first
       then bind (getitem (time self) 1) (\<lambda>t1. Inr (Some (key1, key2, t0, t1)))
       else
         bind (getitem (time self) 1) (\<lambda>t1.
           if time_add self > t1
           then bind (getitem (time self) 2) (\<lambda>t2.
                  if time_add self \<le> t2
                  then (case key3 of
                          Some k3 \<Rightarrow> Inr (Some (key2, k3, t1, t2))
                        | None \<Rightarrow> Inr None)
                  else Inr None)
           else Inr None)))"

text \<open>The last \<open>if\<close> of \<open>animation_loop\<close>: the accumulator moves by \<open>tempo\<close>.\<close>

definition advance :: "animation_components \<Rightarrow> animation_components" where
  "advance self =
     (if flag self = True
      then (if anition_start self = True
            then self\<lparr>time_add := time_add self + tempo self\<rparr>
            else self\<lparr>time_add := time_add self\<rparr>)
      else (if anition_start self = True
            then self\<lparr>time_add := time_add self - tempo self\<rparr>
            else self\<lparr>time_add := time_add self\<rparr>))"

text \<open>
  \<open>animation_loop(self, key1, key2, key3=None)\<close> returns the component as it has
  become and \<open>MM1Data\<close>, the matrices of \<open>MM\<close> flattened to rows of 16 numbers.
\<close>

definition animation_loop ::
  "'q quaternion_module \<Rightarrow> animation_components \<Rightarrow> matrix list \<Rightarrow> matrix list
     \<Rightarrow> matrix list option \<Rightarrow> error + animation_components \<times> rat list list"
where
  "animation_loop quat self key1 key2 key3 =
     (let self1 = self\<lparr>MM := map (\<lambda>_. identity) key1\<rparr>
      in bind (set_flag self1 key3) (\<lambda>self2.
         bind (select_segment self2 key1 key2 key3) (\<lambda>seg.
         bind (case seg of
                 None \<Rightarrow> Inr self2
               | Some (k_1, k_2, t0, t1) \<Rightarrow> animation_for_loop quat self2 k_1 k_2 t0 t1)
           (\<lambda>self3.
              let self4 = advance self3
              in Inr (self4, map concat (MM self4))))))"

text \<open>\<open>n\<close> calls of \<open>animation_loop\<close>, one per tick, with the same keyframes.\<close>

fun ticks ::
  "'q quaternion_module \<Rightarrow> matrix list \<Rightarrow> matrix list \<Rightarrow> matrix list option \<Rightarrow> nat
     \<Rightarrow> animation_components \<Rightarrow> error + animation_components"
where
  "ticks quat key1 key2 key3 0 self = Inr self"
| "ticks quat key1 key2 key3 (Suc n) self =
     bind (ticks quat key1 key2 key3 n self)
       (\<lambda>s. map_sum id fst (animation_loop quat s key1 key2 key3))"

text \<open>
  The configuration in which the ping-pong cycle is stated: the boundaries
  \<open>[0, 100, 200]\<close>, \<open>tempo = 2\<close> and the animation running (\<open>animation_start=True\<close>,
  the constructor's default).
\<close>

definition ping_pong_config :: "animation_components \<Rightarrow> bool" where
  "ping_pong_config s = (time s = [0, 100, 200] \<and> tempo s = 2 \<and> anition_start s = True)"

text \<open>
  A stand-in for the quaternion module, to run the model on concrete keyframes: a
  rotation is kept as its 3x3 matrix and both interpolations blend the entries
  linearly.  No general statement below depends on it.
\<close>

definition rotation_of :: "matrix \<Rightarrow> matrix" where
  "rotation_of m = map (take 3) (take 3 m)"

definition matrix_quaternions :: "matrix quaternion_module" where
  "matrix_quaternions =
     \<lparr> from_rotation_matrix = rotation_of,
       to_rotation_matrix = (\<lambda>q. q),
       quaternion_lerp = (\<lambda>p q t. map2 (\<lambda>r s. lerp r s t) p q),
       quaternion_slerp = (\<lambda>p q t. map2 (\<lambda>r s. lerp r s t) p q) \<rparr>"

text \<open>
  \<open>util.translate(x, y, z)\<close> (not among these sources): the translation by
  \<open>(x, y, z)\<close> as a 4x4 matrix.
\<close>

definition translate_matrix :: "rat \<Rightarrow> rat \<Rightarrow> rat \<Rightarrow> matrix" where
  "translate_matrix x y z = [[1, 0, 0, x], [0, 1, 0, y], [0, 0, 1, z], [0, 0, 0, 1]]"

text \<open>An \<open>AnimationComponents\<close> made with the constructor's defaults but for the two given.\<close>

definition default_animation :: "rat \<Rightarrow> rat list \<Rightarrow> animation_components" where
  "default_animation ta tm =
     AnimationComponents_init 0 7 None None None None None 0 2 ta True 2 tm True ''SLERP''"

subsection \<open>Entities and the scenegraph\<close>

text \<open>
  Modelled from the spec: the class \<open>Entity\<close> (\<open>Elements.pyECSS.Entity\<close>) is missing
  from the sources, which hold only the base class's \<open>getChild\<close> (it returns \<open>None\<close>
  for every index) and the callers.  In the spec an entity has an identity (a unique
  id and a name), an ordered list of child entities that it owns, and its attached
  components, of which the Transform component is the one the scenegraph reads; the
  tree is acyclic.  An entity is here the tree below it.
\<close>

datatype entity =
  Entity (entity_id: nat) (entity_name: string) (entity_transform: "basic_transform option")
    (entity_children: "entity list")

text \<open>
  Modelled from the spec: \<open>addChild(parent, child)\<close> "appends child to parent's
  ordered child list" (the callers' \<open>addEntityChild\<close>).  Its failure case, a child that
  is an ancestor of the parent, does not arise for trees.
\<close>

definition addEntityChild :: "entity \<Rightarrow> entity \<Rightarrow> entity" where
  "addEntityChild p child =
     Entity (entity_id p) (entity_name p) (entity_transform p) (entity_children p @ [child])"

text \<open>
  Modelled from the spec: \<open>getChild(parent, index)\<close> is "1-based" and "returns
  none-sentinel when out of range".
\<close>

definition Entity_getChild :: "entity \<Rightarrow> int \<Rightarrow> entity option" where
  "Entity_getChild p index =
     (if 1 \<le> index \<and> index \<le> int (length (entity_children p))
      then Some (entity_children p ! nat (index - 1)) else None)"

text \<open>
  Modelled from the spec: \<open>remove(parent, child)\<close> "detaches child" and severs the
  link only; the first occurrence of the child leaves the list, as with Python's
  \<open>list.remove\<close>.
\<close>

definition Entity_remove :: "entity \<Rightarrow> entity \<Rightarrow> entity" where
  "Entity_remove p child =
     Entity (entity_id p) (entity_name p) (entity_transform p)
       (remove1 child (entity_children p))"

text \<open>
  \<open>remove_entity_children(entity)\<close> of \<open>bezier_base.py\<close>, \<open>plotting_base.py\<close> and
  \<open>planefitting_base.py\<close>:
  \<^verbatim>\<open>while entity.getChild(1) is not None: entity.remove(entity.getChild(1))\<close>
\<close>

function remove_entity_children :: "entity \<Rightarrow> entity" where
  "remove_entity_children entity =
     (case Entity_getChild entity 1 of
        None \<Rightarrow> entity
      | Some child \<Rightarrow> remove_entity_children (Entity_remove entity child))"
  by pat_completeness auto
termination
proof (relation "measure (\<lambda>e. length (entity_children e))")
  show "wf (measure (\<lambda>e. length (entity_children e)))" by simp
next
  fix entity child
  assume "Entity_getChild entity 1 = Some child"
  then have "entity_children entity \<noteq> [] \<and> child = hd (entity_children entity)"
    by (cases "entity_children entity") (auto simp add: Entity_getChild_def split: if_splits)
  then have "length (remove1 child (entity_children entity)) < length (entity_children entity)"
    by (cases "entity_children entity") auto
  then show "(Entity_remove entity child, entity) \<in> measure (\<lambda>e. length (entity_children e))"
    by (simp add: Entity_remove_def)
qed

text \<open>The equation of the loop is unfolded where it is needed only.\<close>

declare remove_entity_children.simps [simp del]

text \<open>
  The product of two matrices, as numpy's \<open>a @ b\<close> gives it for two 4x4 arrays.
\<close>

definition matmul :: "matrix \<Rightarrow> matrix \<Rightarrow> matrix" where
  "matmul a b = map (\<lambda>row. map (\<lambda>col. sum_list (map2 (*) row col)) (transpose b)) a"

text \<open>
  Modelled from the spec: the transform system (\<open>TransformSystem\<close> of
  \<open>Elements.pyECSS.System\<close>) is missing from the sources.  For a visited entity's
  Transform component "the local-to-world matrix is computed as the matrix product of
  the parent's already-computed local-to-world matrix and this entity's local TRS
  matrix (root's local-to-world equals its own TRS, since root has no parent
  transform)".  The matrix is stored with \<open>BasicTransform.update(l2world=...)\<close>, which
  is taken from the source.  \<open>inherited\<close> is the local-to-world matrix of the nearest
  entity above that carries a Transform component, if there is one.
\<close>

definition TransformSystem_apply2BasicTransform ::
  "matrix option \<Rightarrow> basic_transform \<Rightarrow> basic_transform"
where
  "TransformSystem_apply2BasicTransform inherited b =
     BasicTransform_update b
       [''l2world'' \<mapsto> (case inherited of None \<Rightarrow> trs b | Some m \<Rightarrow> matmul m (trs b))]"

text \<open>
  Modelled from the spec: \<open>traverse_visit(system, root)\<close> of the scenegraph (missing
  from the sources) "walks the tree in pre-order (parent before children)", visiting
  the children in attachment order.
\<close>

fun traverse_visit :: "matrix option \<Rightarrow> entity \<Rightarrow> entity" where
  "traverse_visit inherited (Entity i n t cs) =
     (case t of
        None \<Rightarrow> Entity i n None (map (traverse_visit inherited) cs)
      | Some b \<Rightarrow>
          (let b' = TransformSystem_apply2BasicTransform inherited b
           in Entity i n (Some b') (map (traverse_visit (Some (l2world b'))) cs)))"

text \<open>
  Every entity of the tree that carries a Transform component and whose parent carries
  one has as local-to-world matrix the product of the parent's local-to-world matrix
  and its own TRS.
\<close>

fun propagated :: "entity \<Rightarrow> bool" where
  "propagated (Entity i n t cs) =
     list_all (\<lambda>c. (case (t, entity_transform c) of
                      (Some p, Some e) \<Rightarrow> l2world e = matmul (l2world p) (trs e)
                    | _ \<Rightarrow> True)
                  \<and> propagated c) cs"

text \<open>
  The scene of the spec's end-to-end example: a root \<open>R\<close> without a Transform
  component; its child \<open>A\<close> with local TRS \<open>translate(0, 0, -8)\<close>; \<open>B\<close>, child of \<open>A\<close>,
  with the identity as its TRS.
\<close>

definition example_B :: entity where
  "example_B = Entity 2 ''B'' (Some (BasicTransform_init 11 8 None None None (Some identity))) []"

definition example_A :: entity where
  "example_A =
     Entity 1 ''A''
       (Some (BasicTransform_init 10 7 None None None (Some (translate_matrix 0 0 (- 8)))))
       [example_B]"

definition example_R :: entity where
  "example_R = Entity 0 ''R'' None [example_A]"

subsection \<open>Plotting: \<open>generate_plot2d_data\<close>\<close>

text \<open>
  \<open>np.linspace(start, stop, num)\<close> (numpy, not among these sources): \<open>num\<close> evenly
  spaced samples from \<open>start\<close> to \<open>stop\<close>, both included.
\<close>

definition linspace :: "rat \<Rightarrow> rat \<Rightarrow> nat \<Rightarrow> rat list" where
  "linspace start stop num =
     (if num = 1 then [start]
      else map (\<lambda>i. start + of_nat i * ((stop - start) / of_nat (num - 1))) [0..<num])"

text \<open>
  One round of the loop of \<open>generate_plot2d_data\<close>: \<open>point1\<close> and \<open>point2\<close>, which
  \<open>np.append\<close> adds to the vertices.  An index beyond an array raises \<open>IndexError\<close>.
\<close>

definition plot_segment :: "rat list \<Rightarrow> rat list \<Rightarrow> nat \<Rightarrow> error + rat list list" where
  "plot_segment x y i =
     (if i + 1 < length x \<and> i + 1 < length y
      then Inr [[x ! i, y ! i, 0, 1], [x ! (i + 1), y ! (i + 1), 0, 1]]
      else Inl IndexError)"

fun plot_loop :: "rat list \<Rightarrow> rat list \<Rightarrow> nat list \<Rightarrow> rat list list \<Rightarrow> error + rat list list"
where
  "plot_loop x y [] plotting_vertices = Inr plotting_vertices"
| "plot_loop x y (i # is) plotting_vertices =
     bind (plot_segment x y i) (\<lambda>points. plot_loop x y is (plotting_vertices @ points))"

text \<open>
  \<open>generate_plot2d_data(plot_boundaries, func_detail, f_x)\<close>.  \<open>plot_boundaries\<close> is
  the tuple \<open>max X, min X, max Y, min Y\<close>; \<open>eval_f_x\<close> is the function on arrays that the
  string \<open>f_x\<close> denotes (the source evaluates the string with Python's \<open>eval\<close>).  The
  loop runs over \<open>range(0, len(x) - 2)\<close>, which is empty when \<open>len(x) < 2\<close>.  The result
  is the vertices, the colours and the indices.
\<close>

definition generate_plot2d_data ::
  "rat \<times> rat \<times> rat \<times> rat \<Rightarrow> nat \<Rightarrow> (rat list \<Rightarrow> rat list)
     \<Rightarrow> error + rat list list \<times> rat list list \<times> nat list"
where
  "generate_plot2d_data plot_boundaries func_detail eval_f_x =
     (let x = linspace (fst plot_boundaries) (fst (snd plot_boundaries)) func_detail;
          y = eval_f_x x
      in bind (plot_loop x y [0..<length x - 2] [])
           (\<lambda>plotting_vertices.
              let plotting_colors = replicate (length plotting_vertices) [1/2, 0, 1, 1];
                  plotting_indices = [0..<length plotting_vertices]
              in Inr (plotting_vertices, plotting_colors, plotting_indices)))"

section \<open>Properties\<close>

subsection \<open>Freshly constructed components\<close>

lemma new_self: "fresh_parent h mk = (parent_of (mk (length h)) = Ref (length h))"
  by (simp add: fresh_parent_def new_def)

text \<open>
  C9.  A freshly constructed component of every class (\<open>BasicTransform\<close>, \<open>Camera\<close>, \<open>RenderMesh\<close>, \<open>BasicTransformDecorator\<close>,
  \<open>Keyframe\<close>, \<open>AnimationComponents\<close>) has its parent reference set to the component
  itself: the reference is the address of the new object, not \<open>None\<close>.  The first
  conjunct is the base initialiser \<open>Component.__init__\<close>, which every class runs first.
\<close>

theorem fresh_component_parent_is_self:
  "parent (Component_init self cls uuid nm ty i) = Ref self
   \<and> fresh_parent h (\<lambda>self. OBasicTransform (BasicTransform_init self uuid nm ty i t))
   \<and> fresh_parent h (\<lambda>self. OCamera (Camera_init self uuid ortho pm nm ty i))
   \<and> fresh_parent h (\<lambda>self. ORenderMesh (RenderMesh_init self uuid nm ty i va vi))
   \<and> fresh_parent h
        (\<lambda>self. OBasicTransformDecorator (BasicTransformDecorator_init self uuid cmp nm ty i))
   \<and> fresh_parent h (\<lambda>self. OKeyframe (Keyframe_init self uuid nm ty i am))
   \<and> fresh_parent h
        (\<lambda>self. OAnimationComponents
           (AnimationComponents_init self uuid nm ty i bs mm a tp ta st ak tm fl intr))
   \<and> Ref (length h) \<noteq> PyNone"
  by (simp add: new_self Component_init_def BasicTransform_init_def Camera_init_def
      RenderMesh_init_def BasicTransformDecorator_init_def Keyframe_init_def
      AnimationComponents_init_def component.defs Let_def)

subsection \<open>\<open>update\<close> changes the named fields only\<close>

text \<open>
  C8.  \<open>BasicTransform.update\<close> sets the fields named by the keyword arguments
  \<open>l2world\<close>, \<open>trs\<close> and \<open>l2cam\<close> to the values supplied, leaves every other field as it
  was, and ignores every other key: its result is the same when the unrecognised keys
  are taken away.  \<open>Camera.update\<close> does the same for the one key \<open>root2cam\<close>, leaving
  the projection matrix and every other field as it was.
\<close>

theorem update_sets_named_fields_only:
  "l2world (BasicTransform_update b kw) = (case kw ''l2world'' of Some v \<Rightarrow> v | None \<Rightarrow> l2world b)
   \<and> trs (BasicTransform_update b kw) = (case kw ''trs'' of Some v \<Rightarrow> v | None \<Rightarrow> trs b)
   \<and> l2cam (BasicTransform_update b kw) = (case kw ''l2cam'' of Some v \<Rightarrow> v | None \<Rightarrow> l2cam b)
   \<and> name (BasicTransform_update b kw) = name b
   \<and> type (BasicTransform_update b kw) = type b
   \<and> ident (BasicTransform_update b kw) = ident b
   \<and> parent (BasicTransform_update b kw) = parent b
   \<and> children (BasicTransform_update b kw) = children b
   \<and> worldManager (BasicTransform_update b kw) = worldManager b
   \<and> eventManager (BasicTransform_update b kw) = eventManager b
   \<and> BasicTransform_update b kw
       = BasicTransform_update b (kw |` {''l2world'', ''trs'', ''l2cam''})
   \<and> root2cam (Camera_update c kw) = (case kw ''root2cam'' of Some v \<Rightarrow> v | None \<Rightarrow> root2cam c)
   \<and> projMat (Camera_update c kw) = projMat c
   \<and> name (Camera_update c kw) = name c
   \<and> type (Camera_update c kw) = type c
   \<and> ident (Camera_update c kw) = ident c
   \<and> parent (Camera_update c kw) = parent c
   \<and> children (Camera_update c kw) = children c
   \<and> worldManager (Camera_update c kw) = worldManager c
   \<and> eventManager (Camera_update c kw) = eventManager c
   \<and> Camera_update c kw = Camera_update c (kw |` {''root2cam''})"
  by (simp add: BasicTransform_update_def Camera_update_def Let_def restrict_map_def
      split: option.splits)

subsection \<open>Visitors without a handler\<close>




subsection \<open>Vertex attributes are attached unchecked\<close>

text \<open>
  C6, as the claim states it, fails: a mesh takes a second vertex-attribute array
  with another number of rows, and then holds arrays of two and of one rows.
\<close>

theorem attach_mismatch_counterexample:
  "vertex_attributes
     (vertex_attributes_append
        (vertex_attributes_append (RenderMesh_init 0 7 None None None None None)
           [[0, 0, 0, 1], [1, 0, 0, 1]])
        [[1/2, 0, 1, 1]])
     = [[[0, 0, 0, 1], [1, 0, 0, 1]], [[1/2, 0, 1, 1]]]
   \<and> \<not> same_row_count
        (vertex_attributes_append
           (vertex_attributes_append (RenderMesh_init 0 7 None None None None None)
              [[0, 0, 0, 1], [1, 0, 0, 1]])
           [[1/2, 0, 1, 1]])"
  by (simp add: vertex_attributes_append_def same_row_count_def RenderMesh_init_def
      Component_init_def component.defs render_mesh.defs)

text \<open>
  C6, amended.  Attaching a vertex-attribute array checks nothing: the array is added
  at the end of the mesh's list whatever its row count, and nothing else of the mesh
  changes.  The arrays of the mesh have one row count afterwards exactly when they had
  one before and the new array has as many rows as each of them.
\<close>

theorem attach_is_unchecked:
  "vertex_attributes (vertex_attributes_append mesh array) = vertex_attributes mesh @ [array]
   \<and> vertex_index (vertex_attributes_append mesh array) = vertex_index mesh
   \<and> (same_row_count (vertex_attributes_append mesh array)
        \<longleftrightarrow> same_row_count mesh
            \<and> (\<forall>b \<in> set (vertex_attributes mesh). length b = length array))"
  by (cases "vertex_attributes mesh")
    (auto simp add: vertex_attributes_append_def same_row_count_def list_all_iff)

theorem attach_is_unchecked_witness:
  "vertex_attributes
     (vertex_attributes_append
        (vertex_attributes_append (RenderMesh_init 0 7 None None None None None)
           [[0, 0, 0, 1], [1, 0, 0, 1]])
        [[1/2, 0, 1, 1], [1/2, 0, 1, 1]])
     = [[[0, 0, 0, 1], [1, 0, 0, 1]], [[1/2, 0, 1, 1], [1/2, 0, 1, 1]]]
   \<and> same_row_count
        (vertex_attributes_append
           (vertex_attributes_append (RenderMesh_init 0 7 None None None None None)
              [[0, 0, 0, 1], [1, 0, 0, 1]])
           [[1/2, 0, 1, 1], [1/2, 0, 1, 1]])"
  using attach_is_unchecked
      [of "vertex_attributes_append (RenderMesh_init 0 7 None None None None None)
             [[0, 0, 0, 1], [1, 0, 0, 1]]"
          "[[1/2, 0, 1, 1], [1/2, 0, 1, 1]]"]
  by (simp add: vertex_attributes_append_def same_row_count_def RenderMesh_init_def
      Component_init_def component.defs render_mesh.defs)

subsection \<open>The animation loop\<close>

lemma getitem3 [simp]:
  "getitem [a, b, c] 0 = Inr a" "getitem [a, b, c] 1 = Inr b" "getitem [a, b, c] 2 = Inr c"
  by (simp_all add: getitem_def)

lemma bind_Inr [simp]: "bind (Inr x) f = f x"
  by (simp add: bind_def)

lemma bind_Inl [simp]: "bind (Inl e) f = Inl e"
  by (simp add: bind_def)

lemma select_segment_3:
  "time self = [t0, t1, t2] \<Longrightarrow>
   select_segment self key1 key2 key3 =
     Inr (if t0 \<le> time_add self \<and> time_add self \<le> t1 then Some (key1, key2, t0, t1)
          else if t1 < time_add self \<and> time_add self \<le> t2
               then (case key3 of Some k3 \<Rightarrow> Some (key2, k3, t1, t2) | None \<Rightarrow> None)
               else None)"
  by (simp add: select_segment_def getitem_def bind_def split: option.splits)

lemma select_segment_cases:
  assumes "time self = [t0, t1, t2]"
    and "select_segment self key1 key2 key3 = Inr (Some (k_1, k_2, u0, u1))"
  shows "(u0 = t0 \<and> u1 = t1 \<and> t0 \<le> time_add self \<and> time_add self \<le> t1)
         \<or> (u0 = t1 \<and> u1 = t2 \<and> t1 < time_add self \<and> time_add self \<le> t2)"
  using assms(2) unfolding select_segment_3 [OF assms(1)]
  by (auto split: if_splits option.splits)

lemma blend_factor_bounds:
  assumes "u0 < u1" "u0 \<le> ta" "ta \<le> u1"
  shows "\<exists>a. blend_factor ta u0 u1 = Inr a \<and> 0 \<le> a \<and> a \<le> 1"
  using assms by (simp add: blend_factor_def)

lemma set_flag_fields:
  "set_flag self key3 = Inr s \<Longrightarrow> time s = time self \<and> time_add s = time_add self \<and> tempo s = tempo self \<and> anition_start s = anition_start self \<and> MM s = MM self \<and> inter s = inter self"
  by (auto simp add: set_flag_def bind_def split: sum.splits if_splits)

lemma animation_for_loop_alpha:
  "animation_for_loop quat self k_1 k_2 u0 u1 = Inr s \<Longrightarrow> blend_factor (time_add self) u0 u1 = Inr (alpha s)"
  by (auto simp add: animation_for_loop_def bind_def Let_def split: sum.splits)

lemma advance_alpha: "alpha (advance s) = alpha s"
  by (simp add: advance_def)

lemma pose_step_ok:
  assumes "i < length mm" "i < length (rotate quat kf1)" "i < length (rotate quat kf2)"
    "i < length (translate kf1)" "i < length (translate kf2)"
  shows "\<exists>mm'. pose_step quat intr a kf1 kf2 i mm = Inr mm' \<and> length mm' = length mm"
  using assms by (simp add: pose_step_def getitem_def Let_def)

lemma pose_loop_ok:
  assumes "\<forall>i \<in> set is. i < length mm \<and> i < length (rotate quat kf1) \<and> i < length (rotate quat kf2)
      \<and> i < length (translate kf1) \<and> i < length (translate kf2)"
  shows "\<exists>mm'. pose_loop quat intr a kf1 kf2 is mm = Inr mm' \<and> length mm' = length mm"
  using assms
proof (induction "is" arbitrary: mm)
  case Nil
  then show ?case by simp
next
  case (Cons i "is")
  then obtain mm1 where s: "pose_step quat intr a kf1 kf2 i mm = Inr mm1" "length mm1 = length mm"
    using pose_step_ok [of i mm quat kf1 kf2 intr a] by auto
  with Cons.prems have "\<forall>i \<in> set is. i < length mm1 \<and> i < length (rotate quat kf1) \<and> i < length (rotate quat kf2)
      \<and> i < length (translate kf1) \<and> i < length (translate kf2)" by simp
  from Cons.IH [OF this] s show ?case by auto
qed

lemma local_keyframe_lengths:
  "length (rotate quat (local_keyframe k)) = length k" "length (translate (local_keyframe k)) = length k"
  by (simp_all add: rotate_def translate_def local_keyframe_def Keyframe_init_def keyframe.defs component.defs Let_def)

lemma animation_for_loop_ok:
  assumes "u0 \<noteq> u1" "length k_1 \<le> length (MM self)" "length k_1 \<le> length k_2"
  shows "\<exists>s. animation_for_loop quat self k_1 k_2 u0 u1 = Inr s \<and> time s = time self
     \<and> tempo s = tempo self \<and> anition_start s = anition_start self \<and> flag s = flag self
     \<and> time_add s = time_add self"
proof -
  from assms(1) obtain a where a: "blend_factor (time_add self) u0 u1 = Inr a"
    by (simp add: blend_factor_def)
  have "\<forall>i \<in> set [0..<length k_1]. i < length (MM (self\<lparr>alpha := a\<rparr>))
      \<and> i < length (rotate quat (local_keyframe k_1)) \<and> i < length (rotate quat (local_keyframe k_2))
      \<and> i < length (translate (local_keyframe k_1)) \<and> i < length (translate (local_keyframe k_2))"
    using assms(2,3) by (simp add: local_keyframe_lengths)
  from pose_loop_ok [OF this] obtain mm' where
    "pose_loop quat (inter (self\<lparr>alpha := a\<rparr>)) (alpha (self\<lparr>alpha := a\<rparr>)) (local_keyframe k_1) (local_keyframe k_2) [0..<length k_1] (MM (self\<lparr>alpha := a\<rparr>)) = Inr mm'"
    by blast
  with a show ?thesis by (simp add: animation_for_loop_def Let_def)
qed

lemma set_flag_two:
  "time self = [t0, t1, t2] \<Longrightarrow>
   set_flag self None =
     Inr (if time_add self \<ge> t1 \<or> time_add self \<ge> t2 then self\<lparr>flag := False\<rparr>
          else if time_add self \<le> t0 then self\<lparr>flag := True\<rparr> else self)"
  by (simp add: set_flag_def at_end_def getitem_def bind_def)

lemma select_segment_two:
  "time self = [t0, t1, t2] \<Longrightarrow>
   select_segment self key1 key2 None =
     Inr (if t0 \<le> time_add self \<and> time_add self \<le> t1 then Some (key1, key2, t0, t1) else None)"
  by (simp add: select_segment_3)

lemma step_two_keys:
  assumes "ping_pong_config s" "length key1 \<le> length key2"
  shows "\<exists>s'. map_sum id fst (animation_loop quat s key1 key2 None) = Inr s' \<and> ping_pong_config s'
     \<and> flag s' = (if time_add s \<ge> 100 then False else if time_add s \<le> 0 then True else flag s)
     \<and> time_add s' = (if flag s' then time_add s + 2 else time_add s - 2)"
proof -
  define s1 where "s1 = s\<lparr>MM := map (\<lambda>_. identity) key1\<rparr>"
  define s2 where "s2 = (if time_add s1 \<ge> 100 \<or> time_add s1 \<ge> 200 then s1\<lparr>flag := False\<rparr>
          else if time_add s1 \<le> 0 then s1\<lparr>flag := True\<rparr> else s1)"
  define seg where "seg = (if 0 \<le> time_add s2 \<and> time_add s2 \<le> 100 then Some (key1, key2, 0::rat, 100::rat) else None)"
  from assms(1) have t1: "time s1 = [0, 100, 200]" by (simp add: ping_pong_config_def s1_def)
  have f: "set_flag s1 None = Inr s2" unfolding s2_def by (rule set_flag_two [OF t1])
  have t2: "time s2 = [0, 100, 200]" using t1 by (simp add: s2_def)
  have f2: "flag s2 = (if time_add s \<ge> 100 then False else if time_add s \<le> 0 then True else flag s)"
    by (simp add: s2_def s1_def)
  have c2: "tempo s2 = 2" "anition_start s2" "time_add s2 = time_add s" "length key1 \<le> length (MM s2)"
    using assms(1) by (simp_all add: ping_pong_config_def s2_def s1_def)
  have sg: "select_segment s2 key1 key2 None = Inr seg"
    unfolding seg_def by (rule select_segment_two [OF t2])
  have "\<exists>s3. (case seg of None \<Rightarrow> Inr s2
               | Some (k_1, k_2, t0, t1) \<Rightarrow> animation_for_loop quat s2 k_1 k_2 t0 t1) = Inr s3
           \<and> time s3 = time s2 \<and> tempo s3 = tempo s2 \<and> anition_start s3 = anition_start s2
           \<and> flag s3 = flag s2 \<and> time_add s3 = time_add s2"
  proof (cases "0 \<le> time_add s2 \<and> time_add s2 \<le> 100")
    case True
    have "(0::rat) \<noteq> 100" by simp
    from animation_for_loop_ok [OF this c2(4) assms(2), of quat] True show ?thesis
      by (simp add: seg_def)
  next
    case False
    then show ?thesis by (auto simp add: seg_def)
  qed
  then obtain s3 where s3: "(case seg of None \<Rightarrow> Inr s2
               | Some (k_1, k_2, t0, t1) \<Rightarrow> animation_for_loop quat s2 k_1 k_2 t0 t1) = Inr s3"
    and k: "time s3 = time s2" "tempo s3 = tempo s2" "anition_start s3 = anition_start s2"
           "flag s3 = flag s2" "time_add s3 = time_add s2"
    by blast
  have "animation_loop quat s key1 key2 None = Inr (advance s3, map concat (MM (advance s3)))"
    unfolding animation_loop_def Let_def s1_def [symmetric] f bind_Inr sg s3 by (rule refl)
  then have run: "map_sum id fst (animation_loop quat s key1 key2 None) = Inr (advance s3)"
    by simp
  have "ping_pong_config (advance s3)" using k t2 c2 by (simp add: ping_pong_config_def advance_def)
  moreover have "flag (advance s3) = (if time_add s \<ge> 100 then False else if time_add s \<le> 0 then True else flag s)"
    using k f2 by (simp add: advance_def)
  moreover have "time_add (advance s3) = (if flag (advance s3) then time_add s + 2 else time_add s - 2)"
    using k c2 by (simp add: advance_def)
  ultimately show ?thesis using run by blast
qed

lemma ticks_forward:
  assumes "ping_pong_config s0" "time_add s0 = 0" "flag s0" "length key1 \<le> length key2"
  shows "n \<le> 50 \<Longrightarrow> \<exists>s. ticks quat key1 key2 None n s0 = Inr s \<and> ping_pong_config s
           \<and> time_add s = 2 * of_nat n \<and> flag s"
proof (induction n)
  case 0
  with assms show ?case by simp
next
  case (Suc n)
  then obtain s where s: "ticks quat key1 key2 None n s0 = Inr s" "ping_pong_config s"
      "time_add s = 2 * of_nat n" "flag s" by auto
  from Suc.prems have "n < 50" by simp
  then have lt: "\<not> time_add s \<ge> 100" using s(3) by simp
  from step_two_keys [OF s(2) assms(4), of quat] obtain s' where
    s': "map_sum id fst (animation_loop quat s key1 key2 None) = Inr s'" "ping_pong_config s'"
      "flag s' = (if time_add s \<ge> 100 then False else if time_add s \<le> 0 then True else flag s)"
      "time_add s' = (if flag s' then time_add s + 2 else time_add s - 2)"
    by blast
  from s'(3) lt s(4) have fl: "flag s'" by simp
  with s'(4) s(3) have "time_add s' = 2 * of_nat (Suc n)" by simp
  with s s' fl show ?case by simp
qed

lemma ticks_backward:
  assumes "ping_pong_config s0" "time_add s0 = 0" "flag s0" "length key1 \<le> length key2"
  shows "n \<le> 50 \<Longrightarrow> \<exists>s. ticks quat key1 key2 None (50 + n) s0 = Inr s \<and> ping_pong_config s
           \<and> time_add s = 100 - 2 * of_nat n \<and> flag s = (n = 0)"
proof (induction n)
  case 0
  from ticks_forward [OF assms, of 50 quat] show ?case by simp
next
  case (Suc n)
  then obtain s where s: "ticks quat key1 key2 None (50 + n) s0 = Inr s" "ping_pong_config s"
      "time_add s = 100 - 2 * of_nat n" "flag s = (n = 0)" by auto
  from Suc.prems have n: "n < 50" by simp
  from step_two_keys [OF s(2) assms(4), of quat] obtain s' where
    s': "map_sum id fst (animation_loop quat s key1 key2 None) = Inr s'" "ping_pong_config s'"
      "flag s' = (if time_add s \<ge> 100 then False else if time_add s \<le> 0 then True else flag s)"
      "time_add s' = (if flag s' then time_add s + 2 else time_add s - 2)"
    by blast
  have pos: "\<not> time_add s \<le> 0" using s(3) n by simp
  have fl: "\<not> flag s'"
  proof (cases "n = 0")
    case True
    with s(3) s'(3) show ?thesis by simp
  next
    case False
    then have "\<not> time_add s \<ge> 100" using s(3) by simp
    with s'(3) pos s(4) False show ?thesis by simp
  qed
  with s'(4) s(3) have tm: "time_add s' = 100 - 2 * of_nat (Suc n)" by simp
  from s(1) s'(1) have t: "ticks quat key1 key2 None (50 + Suc n) s0 = Inr s'"
    by (simp only: add_Suc_right ticks.simps bind_Inr)
  have "ticks quat key1 key2 None (50 + Suc n) s0 = Inr s' \<and> ping_pong_config s'
      \<and> time_add s' = 100 - 2 * of_nat (Suc n) \<and> flag s' = (Suc n = 0)"
    using t s'(2) tm fl by simp
  then show ?case by blast
qed

text \<open>
  C4, as the claim states it, fails where the first two boundaries are equal: with the
  ordered boundaries \<open>[5, 5, 10]\<close> and the accumulator at 5, \<open>animation_loop\<close> calls
  \<open>animation_for_loop(key1, key2, 5, 5)\<close>, whose division by \<open>abs(5 - 5)\<close> raises
  \<open>ZeroDivisionError\<close>: no blend factor is computed.
\<close>

theorem blend_factor_counterexample:
  "select_segment (default_animation 5 [5, 5, 10]) [identity] [identity] None
     = Inr (Some ([identity], [identity], 5, 5))
   \<and> blend_factor (time_add (default_animation 5 [5, 5, 10])) 5 5 = Inl ZeroDivisionError
   \<and> animation_loop matrix_quaternions (default_animation 5 [5, 5, 10]) [identity] [identity] None
     = Inl ZeroDivisionError"
  by (simp add: animation_loop_def set_flag_def at_end_def select_segment_def
      animation_for_loop_def blend_factor_def getitem_def bind_def default_animation_def
      AnimationComponents_init_def Component_init_def component.defs
      animation_components.defs Let_def)

text \<open>
  C4, amended.  For boundaries \<open>time = [t0, t1, t2]\<close> with \<open>t0 < t1\<close> (and so for all
  ordered boundaries \<open>t0 < t1 \<le> t2\<close>) and every value of the accumulator: whenever
  \<open>animation_loop\<close> calls \<open>animation_for_loop(k_1, k_2, u0, u1)\<close>, the division
  \<open>(time_add - u0) / abs(u1 - u0)\<close> succeeds and the blend factor lies in \<open>[0, 1]\<close>;
  it is the \<open>alpha\<close> of the component when \<open>animation_loop\<close> returns.
\<close>

theorem blend_factor_in_unit_interval:
  assumes "time self = [t0, t1, t2]" and "t0 < t1"
    and "select_segment self key1 key2 key3 = Inr (Some (k_1, k_2, u0, u1))"
  shows "\<exists>a. blend_factor (time_add self) u0 u1 = Inr a \<and> 0 \<le> a \<and> a \<le> 1
           \<and> (\<forall>self' d. animation_loop quat self key1 key2 key3 = Inr (self', d) \<longrightarrow> alpha self' = a)"
proof -
  from select_segment_cases [OF assms(1) assms(3)] assms(2)
  have "u0 < u1 \<and> u0 \<le> time_add self \<and> time_add self \<le> u1" by auto
  then obtain a where a: "blend_factor (time_add self) u0 u1 = Inr a" "0 \<le> a" "a \<le> 1"
    using blend_factor_bounds by blast
  have "alpha self' = a" if run: "animation_loop quat self key1 key2 key3 = Inr (self', d)" for self' d
  proof -
    let ?self1 = "self\<lparr>MM := map (\<lambda>_. identity) key1\<rparr>"
    from run obtain self2 where s2: "set_flag ?self1 key3 = Inr self2"
      by (auto simp add: animation_loop_def Let_def bind_def split: sum.splits)
    from set_flag_fields [OF s2] have eq: "time self2 = time self" "time_add self2 = time_add self"
      by simp_all
    from eq assms(1) have t2: "time self2 = [t0, t1, t2]" by simp
    have "select_segment self2 key1 key2 key3 = select_segment self key1 key2 key3"
      unfolding select_segment_3 [OF assms(1)] select_segment_3 [OF t2] eq(2) by (rule refl)
    with assms(3) have seg: "select_segment self2 key1 key2 key3 = Inr (Some (k_1, k_2, u0, u1))"
      by simp
    from run s2 seg obtain self3 where s3: "animation_for_loop quat self2 k_1 k_2 u0 u1 = Inr self3"
      and r: "self' = advance self3"
      by (auto simp add: animation_loop_def Let_def bind_def split: sum.splits)
    from animation_for_loop_alpha [OF s3] eq a have "alpha self3 = a" by simp
    with r show ?thesis by (simp add: advance_alpha)
  qed
  with a show ?thesis by blast
qed

theorem blend_factor_in_unit_interval_witness:
  "select_segment (default_animation 50 [0, 100, 200]) [identity] [identity] None
     = Inr (Some ([identity], [identity], 0, 100))
   \<and> (\<exists>a. blend_factor (time_add (default_animation 50 [0, 100, 200])) 0 100 = Inr a
          \<and> 0 \<le> a \<and> a \<le> 1)"
proof -
  have t: "time (default_animation 50 [0, 100, 200]) = [0, 100, 200]"
    by (simp add: default_animation_def AnimationComponents_init_def Component_init_def
        component.defs animation_components.defs)
  have s: "select_segment (default_animation 50 [0, 100, 200]) [identity] [identity] None
     = Inr (Some ([identity], [identity], 0, 100))"
    unfolding select_segment_3 [OF t]
    by (simp add: default_animation_def AnimationComponents_init_def
        Component_init_def component.defs animation_components.defs)
  have "(0::rat) < 100" by simp
  from blend_factor_in_unit_interval [OF t this s] s show ?thesis by blast
qed

text \<open>
  C2.  From the accumulator at 0, the flag forward, \<open>tempo = 2\<close>, the boundaries
  \<open>[0, 100, 200]\<close> and two keyframes of the same skeleton (no third keyframe), every
  call of \<open>animation_loop\<close> returns, and after \<open>n \<le> 50\<close> calls the accumulator is \<open>2 n\<close>:
  it reaches 100 after exactly 50 calls.  The call that finds it at 100 (the 51st)
  sets the flag to backward, and the accumulator is \<open>100 - 2 n\<close> after \<open>50 + n\<close> calls:
  it is back at 0 after another 50 calls, 100 in all.  The call that finds it at 0 (the
  101st) sets the flag to forward again, and the cycle of 100 calls starts anew.
\<close>

theorem ping_pong_cycle:
  assumes "time self = [0, 100, 200]" and "tempo self = 2" and "time_add self = 0"
    and "flag self = True" and "anition_start self = True"
    and "length key1 \<le> length key2"
  shows "(\<forall>n \<le> 50. \<exists>s. ticks quat key1 key2 None n self = Inr s
            \<and> time_add s = 2 * of_nat n \<and> flag s = True)
     \<and> (\<forall>n. 1 \<le> n \<and> n \<le> 50 \<longrightarrow>
           (\<exists>s. ticks quat key1 key2 None (50 + n) self = Inr s
              \<and> time_add s = 100 - 2 * of_nat n \<and> flag s = False))
     \<and> (\<exists>s. ticks quat key1 key2 None 50 self = Inr s \<and> time_add s = 100 \<and> flag s = True)
     \<and> (\<exists>s. ticks quat key1 key2 None 51 self = Inr s \<and> time_add s = 98 \<and> flag s = False)
     \<and> (\<exists>s. ticks quat key1 key2 None 100 self = Inr s \<and> time_add s = 0 \<and> flag s = False)
     \<and> (\<exists>s. ticks quat key1 key2 None 101 self = Inr s \<and> time_add s = 2 \<and> flag s = True)"
proof -
  from assms have c: "ping_pong_config self" by (simp add: ping_pong_config_def)
  from assms have f: "flag self" by simp
  note fw = ticks_forward [OF c assms(3) f assms(6), of _ quat]
  note bw = ticks_backward [OF c assms(3) f assms(6), of _ quat]
  have a: "\<forall>n \<le> 50. \<exists>s. ticks quat key1 key2 None n self = Inr s
            \<and> time_add s = 2 * of_nat n \<and> flag s = True"
    using fw by auto
  have b: "\<forall>n. 1 \<le> n \<and> n \<le> 50 \<longrightarrow>
           (\<exists>s. ticks quat key1 key2 None (50 + n) self = Inr s
              \<and> time_add s = 100 - 2 * of_nat n \<and> flag s = False)"
  proof (intro allI impI)
    fix n :: nat
    assume n: "1 \<le> n \<and> n \<le> 50"
    then have "n \<le> 50" by simp
    from bw [OF this] n show "\<exists>s. ticks quat key1 key2 None (50 + n) self = Inr s
              \<and> time_add s = 100 - 2 * of_nat n \<and> flag s = False"
      by auto
  qed
  have e50: "\<exists>s. ticks quat key1 key2 None 50 self = Inr s \<and> time_add s = 100 \<and> flag s = True"
    using fw [of 50] by auto
  have e51: "\<exists>s. ticks quat key1 key2 None 51 self = Inr s \<and> time_add s = 98 \<and> flag s = False"
    using bw [of 1] by auto
  from bw [of 50] obtain s where s: "ticks quat key1 key2 None 100 self = Inr s"
      "ping_pong_config s" "time_add s = 0" "\<not> flag s"
    by auto
  then have e100: "\<exists>s. ticks quat key1 key2 None 100 self = Inr s \<and> time_add s = 0 \<and> flag s = False"
    by auto
  from step_two_keys [OF s(2) assms(6), of quat] s(3) obtain s' where
    s': "map_sum id fst (animation_loop quat s key1 key2 None) = Inr s'"
      "flag s'" "time_add s' = 2"
    by auto
  have "ticks quat key1 key2 None (Suc 100) self = Inr s'"
    using s(1) s'(1) by (simp only: ticks.simps bind_Inr)
  then have "ticks quat key1 key2 None 101 self = Inr s'" by simp
  with s' have e101: "\<exists>s. ticks quat key1 key2 None 101 self = Inr s \<and> time_add s = 2 \<and> flag s = True"
    by auto
  from a b e50 e51 e100 e101 show ?thesis by blast
qed

text \<open>
  The cycle with the constructor's defaults and one bone, whose first keyframe is the
  identity and whose second is a translation.
\<close>

theorem ping_pong_cycle_witness:
  "(\<exists>s. ticks matrix_quaternions [identity] [translate_matrix 1 2 3] None 50
          (default_animation 0 [0, 100, 200]) = Inr s \<and> time_add s = 100 \<and> flag s = True)
   \<and> (\<exists>s. ticks matrix_quaternions [identity] [translate_matrix 1 2 3] None 51
          (default_animation 0 [0, 100, 200]) = Inr s \<and> time_add s = 98 \<and> flag s = False)
   \<and> (\<exists>s. ticks matrix_quaternions [identity] [translate_matrix 1 2 3] None 100
          (default_animation 0 [0, 100, 200]) = Inr s \<and> time_add s = 0 \<and> flag s = False)
   \<and> (\<exists>s. ticks matrix_quaternions [identity] [translate_matrix 1 2 3] None 101
          (default_animation 0 [0, 100, 200]) = Inr s \<and> time_add s = 2 \<and> flag s = True)"
proof -
  have h: "time (default_animation 0 [0, 100, 200]) = [0, 100, 200]"
    "tempo (default_animation 0 [0, 100, 200]) = 2"
    "time_add (default_animation 0 [0, 100, 200]) = 0"
    "flag (default_animation 0 [0, 100, 200]) = True"
    "anition_start (default_animation 0 [0, 100, 200]) = True"
    "length [identity] \<le> length [translate_matrix 1 2 3]"
    by (simp_all add: default_animation_def AnimationComponents_init_def Component_init_def
        component.defs animation_components.defs)
  from ping_pong_cycle [OF h, of matrix_quaternions] show ?thesis by blast
qed

subsection \<open>Draining the children of an entity\<close>

lemma children_addEntityChild:
  "entity_children (foldl addEntityChild e cs) = entity_children e @ cs"
  by (induction cs arbitrary: e) (simp_all add: addEntityChild_def)

lemma drained: "entity_children (remove_entity_children x) = []"
proof (induction x rule: remove_entity_children.induct)
  case (1 entity)
  show ?case
  proof (cases "Entity_getChild entity 1")
    case None
    then have "entity_children entity = []"
      by (cases "entity_children entity") (auto simp add: Entity_getChild_def split: if_splits)
    with None show ?thesis by (simp add: remove_entity_children.simps [of entity])
  next
    case (Some child)
    with 1 show ?thesis by (simp add: remove_entity_children.simps [of entity])
  qed
qed

text \<open>
  C7.  \<open>remove_entity_children\<close> returns for every entity (the function is total: its
  loop ends, each round taking one child away) and leaves the entity with no children,
  so that \<open>getChild(1)\<close> gives the none-sentinel; in particular after the children
  \<open>cs\<close>, any number of them, were added to an entity \<open>e\<close>, which then has the children
  it had and \<open>cs\<close>.
\<close>

theorem drain_leaves_no_children:
  "entity_children (remove_entity_children e) = []
   \<and> Entity_getChild (remove_entity_children e) 1 = None
   \<and> entity_children (foldl addEntityChild e cs) = entity_children e @ cs
   \<and> entity_children (remove_entity_children (foldl addEntityChild e cs)) = []"
proof -
  have "Entity_getChild (remove_entity_children e) 1 = None"
    unfolding Entity_getChild_def drained by simp
  then show ?thesis by (simp only: drained children_addEntityChild simp_thms)
qed

subsection \<open>Transform propagation\<close>

lemma apply2BasicTransform_fields:
  "l2world (TransformSystem_apply2BasicTransform p b)
     = (case p of None \<Rightarrow> trs b | Some m \<Rightarrow> matmul m (trs b))"
  "trs (TransformSystem_apply2BasicTransform p b) = trs b"
  by (simp_all add: TransformSystem_apply2BasicTransform_def BasicTransform_update_def Let_def)

lemma transform_traverse_visit:
  "entity_transform (traverse_visit p e)
     = map_option (TransformSystem_apply2BasicTransform p) (entity_transform e)"
  by (cases e) (simp add: Let_def split: option.splits)

lemma propagated_traverse_visit: "propagated (traverse_visit p e)"
proof (induction e arbitrary: p)
  case (Entity i n t cs)
  show ?case
  proof (cases t)
    case None
    with Entity show ?thesis by (simp add: list_all_iff)
  next
    case (Some b)
    with Entity show ?thesis
      by (auto simp add: list_all_iff Let_def transform_traverse_visit
          apply2BasicTransform_fields split: option.splits)
  qed
qed

text \<open>
  C1.  After one pre-order traversal from the root, every entity \<open>E\<close> with a Transform
  component whose parent \<open>P\<close> carries one has
  \<open>E.l2world = P.l2world @ E.trs\<close>, and the root's Transform component, when it has
  one, has \<open>l2world = trs\<close>, its TRS being the one it had before.
\<close>

theorem traversal_propagates_l2world:
  "propagated (traverse_visit None rt)
   \<and> (case entity_transform (traverse_visit None rt) of
        None \<Rightarrow> entity_transform rt = None
      | Some r \<Rightarrow> l2world r = trs r \<and> map_option trs (entity_transform rt) = Some (trs r))"
  by (cases "entity_transform rt")
    (simp_all add: propagated_traverse_visit transform_traverse_visit
      apply2BasicTransform_fields)



theorem drain_leaves_no_children_witness:
  "entity_children (foldl addEntityChild example_R [example_B, example_A, example_B])
     = [example_A, example_B, example_A, example_B]
   \<and> entity_children
       (remove_entity_children (foldl addEntityChild example_R [example_B, example_A, example_B]))
     = []"
  using drain_leaves_no_children [of example_R "[example_B, example_A, example_B]"]
  by (simp add: example_R_def)

text \<open>
  The spec's end-to-end example: after the traversal \<open>A.l2world = translate(0, 0, -8)\<close>
  and \<open>B.l2world = translate(0, 0, -8)\<close>.
\<close>

theorem traversal_propagates_l2world_witness:
  "propagated (traverse_visit None example_R)
   \<and> map (\<lambda>a. map_option l2world (entity_transform a))
       (entity_children (traverse_visit None example_R))
     = [Some (translate_matrix 0 0 (- 8))]
   \<and> map (\<lambda>b. map_option l2world (entity_transform b))
       (concat (map entity_children (entity_children (traverse_visit None example_R))))
     = [Some (translate_matrix 0 0 (- 8))]"
  using traversal_propagates_l2world [of example_R]
  by (simp add: example_R_def example_A_def example_B_def Let_def
      TransformSystem_apply2BasicTransform_def BasicTransform_update_def
      BasicTransform_init_def Component_init_def component.defs basic_transform.defs
      matmul_def identity_def translate_matrix_def)

subsection \<open>The vertices of a 2D plot\<close>

lemma length_linspace: "length (linspace a b n) = n"
  by (simp add: linspace_def)

lemma nth_linspace:
  "i < n \<Longrightarrow> linspace a b n ! i = a + of_nat i * ((b - a) / of_nat (n - 1))"
  by (auto simp add: linspace_def)

lemma plot_loop_ok:
  assumes "\<forall>i \<in> set is. i + 1 < length x \<and> i + 1 < length y"
  shows "plot_loop x y is vs
     = Inr (vs @ concat (map (\<lambda>i. [[x ! i, y ! i, 0, 1], [x ! (i + 1), y ! (i + 1), 0, 1]]) is))"
  using assms
  by (induction "is" arbitrary: vs) (simp_all add: plot_segment_def)

lemma length_concat_pairs:
  "length (concat (map (\<lambda>i. [f i, g i]) is)) = 2 * length is"
  by (induction "is") simp_all

text \<open>
  C10.  For \<open>func_detail = n \<ge> 3\<close> and a function \<open>f_x\<close> that gives one value for
  each of the \<open>n\<close> samples, \<open>generate_plot2d_data\<close> returns exactly \<open>2 (n - 2)\<close>
  vertices: the two ends of the segment from sample \<open>i\<close> to sample \<open>i + 1\<close> for every
  \<open>i < n - 2\<close>, in this order.  The segment between the last two samples is not among
  them: the last vertex is sample \<open>n - 2\<close>, and the last sample is no vertex at all when
  the two X boundaries differ.  The colours and the indices have the same length
  \<open>2 (n - 2)\<close>.
\<close>

theorem plot2d_vertex_count:
  assumes "3 \<le> n" and "length (f (linspace b0 b1 n)) = n"
  shows "\<exists>vs cs ixs. generate_plot2d_data (b0, b1, b2, b3) n f = Inr (vs, cs, ixs)
     \<and> vs = concat (map (\<lambda>i. [[linspace b0 b1 n ! i, f (linspace b0 b1 n) ! i, 0, 1],
                                [linspace b0 b1 n ! (i + 1), f (linspace b0 b1 n) ! (i + 1), 0, 1]])
                      [0..<n - 2])
     \<and> length vs = 2 * (n - 2)
     \<and> cs = replicate (2 * (n - 2)) [1/2, 0, 1, 1] \<and> length cs = 2 * (n - 2)
     \<and> ixs = [0..<2 * (n - 2)] \<and> length ixs = 2 * (n - 2)
     \<and> last vs = [linspace b0 b1 n ! (n - 2), f (linspace b0 b1 n) ! (n - 2), 0, 1]
     \<and> (b0 \<noteq> b1 \<longrightarrow>
          [linspace b0 b1 n ! (n - 1), f (linspace b0 b1 n) ! (n - 1), 0, 1] \<notin> set vs)"
proof -
  define x where "x = linspace b0 b1 n"
  define y where "y = f x"
  define vs where "vs = concat (map (\<lambda>i. [[x ! i, y ! i, 0, 1], [x ! (i + 1), y ! (i + 1), 0, 1]]) [0..<n - 2])"
  have lx: "length x = n" by (simp add: x_def length_linspace)
  have ly: "length y = n" using assms(2) by (simp add: y_def x_def)
  have "\<forall>i \<in> set [0..<length x - 2]. i + 1 < length x \<and> i + 1 < length y"
    using lx ly by auto
  from plot_loop_ok [OF this, of "[]"] lx
  have loop: "plot_loop x y [0..<length x - 2] [] = Inr vs" by (simp add: vs_def)
  have lvs: "length vs = 2 * (n - 2)" unfolding vs_def by (simp add: length_concat_pairs)
  have run: "generate_plot2d_data (b0, b1, b2, b3) n f
      = Inr (vs, replicate (2 * (n - 2)) [1/2, 0, 1, 1], [0..<2 * (n - 2)])"
    using loop lvs by (simp add: generate_plot2d_data_def Let_def x_def [symmetric] y_def [symmetric] bind_def)
  have n2: "[0..<n - 2] = [0..<n - 3] @ [n - 3]"
  proof -
    from assms(1) have "n - 2 = Suc (n - 3)" by simp
    then show ?thesis by simp
  qed
  have lst: "last vs = [x ! (n - 2), y ! (n - 2), 0, 1]"
  proof -
    from assms(1) have "n - 3 + 1 = n - 2" by simp
    then show ?thesis unfolding vs_def n2 by simp
  qed
  have notin: "[x ! (n - 1), y ! (n - 1), 0, 1] \<notin> set vs" if ne: "b0 \<noteq> b1"
  proof
    assume "[x ! (n - 1), y ! (n - 1), 0, 1] \<in> set vs"
    then obtain i where i: "i < n - 2" "x ! (n - 1) = x ! i \<or> x ! (n - 1) = x ! (i + 1)"
      by (auto simp add: vs_def)
    then have "\<exists>j. j < n - 1 \<and> x ! (n - 1) = x ! j"
    proof (cases "x ! (n - 1) = x ! i")
      case True
      moreover from i(1) have "i < n - 1" by simp
      ultimately show ?thesis by blast
    next
      case False
      with i(2) have "x ! (n - 1) = x ! (i + 1)" by simp
      moreover from i(1) have "i + 1 < n - 1" by simp
      ultimately show ?thesis by blast
    qed
    then obtain j where j: "j < n - 1" "x ! (n - 1) = x ! j" by blast
    from j(1) assms(1) have jn: "j < n" "n - 1 < n" by simp_all
    define d where "d = (b1 - b0) / (of_nat (n - 1) :: rat)"
    from j(2) have "b0 + of_nat (n - 1) * d = b0 + of_nat j * d"
      unfolding x_def nth_linspace [OF jn(1)] nth_linspace [OF jn(2)] d_def .
    then have "of_nat (n - 1) * d = of_nat j * d" by (simp only: add_left_cancel)
    moreover from assms(1) ne have "d \<noteq> 0" by (simp add: d_def)
    ultimately have "(of_nat (n - 1) :: rat) = of_nat j" using mult_right_cancel by blast
    then have "n - 1 = j" by (simp only: of_nat_eq_iff)
    with j(1) show False by simp
  qed
  from run lvs lst notin show ?thesis
    unfolding vs_def x_def y_def by simp
qed

text \<open>
  The plot of \<open>x**2+x*4\<close> from 1 down to -1 with four samples: two segments, and the
  sample \<open>(-1, -3)\<close> is not reached.
\<close>

theorem plot2d_vertex_count_witness:
  "generate_plot2d_data (1, - 1, 1, - 1) 4 (map (\<lambda>x. x ^ 2 + x * 4))
     = Inr ([[1, 5, 0, 1], [1/3, 13/9, 0, 1], [1/3, 13/9, 0, 1], [- 1/3, - 11/9, 0, 1]],
            [[1/2, 0, 1, 1], [1/2, 0, 1, 1], [1/2, 0, 1, 1], [1/2, 0, 1, 1]],
            [0, 1, 2, 3])"
proof -
  have x: "linspace 1 (- 1) 4 = [1, 1/3, - 1/3, - 1]"
    by (simp add: linspace_def upt_rec power2_eq_square)
  have u: "[0..<4 - 2] = [0, 1]" "[0..<2 * (4 - 2)] = [0, 1, 2, 3]"
    by (simp_all add: upt_rec)
  have r: "replicate (2 * (4 - 2)) [1/2, 0, 1, (1::rat)] = [[1/2, 0, 1, 1], [1/2, 0, 1, 1], [1/2, 0, 1, 1], [1/2, 0, 1, 1]]"
    by (simp add: numeral_eq_Suc)
  have h: "(3::nat) \<le> 4" "length (map (\<lambda>x. x ^ 2 + x * 4) (linspace 1 (- 1) 4)) = 4"
    by (simp_all add: length_linspace)
  from plot2d_vertex_count [of 4 "map (\<lambda>x. x ^ 2 + x * 4)" 1 "- 1" 1 "- 1", OF h] show ?thesis
    unfolding x u r by (auto simp add: power2_eq_square)
qed

subsection \<open>The translation channel at the ends of a segment\<close>

text \<open>
  \<open>AnimationComponents.lerp\<close> gives its first argument at \<open>t = 0\<close> and its second at
  \<open>t = 1\<close>, for arrays of one length.  The rotation block of a pose is computed by the
  quaternion module, which is a parameter here.
\<close>

lemma lerp_endpoints:
  "length a = length b \<Longrightarrow> lerp a b 0 = a \<and> lerp a b 1 = b"
proof (induction a arbitrary: b)
  case Nil
  then show ?case by (simp add: lerp_def)
next
  case (Cons x a)
  then obtain y b' where b: "b = y # b'" "length a = length b'"
    by (cases b) auto
  from Cons.IH [OF b(2)] b(1) show ?case by (simp add: lerp_def)
qed

end
